theory Spec2Isabelle
  imports Main Complex_Main "HOL-Library.Sublist" "HOL-Library.Multiset"
begin

section \<open>Python values used by the page\<close>

text \<open>
  A raised exception is a value carrying the text that \<^verbatim>\<open>str(e)\<close> gives; a computation
  that may raise returns \<open>exn + 'a\<close>, with \<open>Inl\<close> for the exception.
\<close>

datatype exn = Exn string

fun message :: "exn \<Rightarrow> string" where
  "message (Exn m) = m"

text \<open>Decimal rendering of integers, as an f-string interpolates them.\<close>

definition digit :: "nat \<Rightarrow> char" where
  "digit d = ''0123456789'' ! d"

function str_nat :: "nat \<Rightarrow> string" where
  "str_nat n = (if n < 10 then [digit n] else str_nat (n div 10) @ [digit (n mod 10)])"
  by pat_completeness auto
termination
  by (relation "measure (\<lambda>n. n)") auto

declare str_nat.simps [simp del]

definition str_int :: "int \<Rightarrow> string" where
  "str_int i = (if i < 0 then CHR ''-'' # str_nat (nat (- i)) else str_nat (nat i))"

text \<open>
  \<^verbatim>\<open>str.lower\<close> on the ASCII letters; the disease names of the mapping file and the
  classifier's labels are ASCII.
\<close>

definition lower_char :: "char \<Rightarrow> char" where
  "lower_char c =
     (case map_of (zip ''ABCDEFGHIJKLMNOPQRSTUVWXYZ'' ''abcdefghijklmnopqrstuvwxyz'') c of
        None \<Rightarrow> c
      | Some l \<Rightarrow> l)"

definition lower :: "string \<Rightarrow> string" where
  "lower s = map lower_char s"

text \<open>What the page shows, in the order it is written.\<close>

datatype ui =
  StError string
| StWarning string
| StInfo string
| StWrite string
| StMarkdown string

section \<open>Feature encoder\<close>

text \<open>
  \<^verbatim>\<open>one_hot\<close> (app.py, lines 113-117) builds a one-row pandas DataFrame whose columns
  are the feature list, filled with 0, and then assigns 1 through
  \<^verbatim>\<open>df.loc[0, symptoms] = 1\<close>.

  The frame has a single row, so it is modelled as the list of its columns, each with
  the value of its only cell; \<open>None\<close> is a cell that was never given a value. The encoded
  vector is the list of the cell values.
\<close>

type_synonym frame = "(string \<times> int option) list"

text \<open>
  \<^verbatim>\<open>DataFrame.loc.__setitem__\<close> with a list of column labels first makes sure that
  every label of the key is a column (pandas 1.1 and later): the new column index is
  \<^verbatim>\<open>columns.union(key, sort=False)\<close>.

  \<^verbatim>\<open>Index.union\<close> returns the columns themselves when the key is empty or equal to
  them, and the key when there are no columns. For a key without repeated labels it
  appends to the columns the labels of the key that are not columns, in the order of the
  key. For a key with a repeated label it takes the distinct labels of columns and key
  in the order of their first occurrence, each as often as it occurs in the columns or in
  the key, whichever is more (\<^verbatim>\<open>union_with_duplicates\<close>).
\<close>

fun unique :: "'a list \<Rightarrow> 'a list" where
  "unique [] = []"
| "unique (x # xs) = x # unique (filter (\<lambda>y. y \<noteq> x) xs)"

definition union_with_duplicates :: "string list \<Rightarrow> string list \<Rightarrow> string list" where
  "union_with_duplicates lvals rvals =
     concat (map (\<lambda>u. replicate (max (count_list lvals u) (count_list rvals u)) u)
                 (unique (lvals @ rvals)))"

definition index_union :: "string list \<Rightarrow> string list \<Rightarrow> string list" where
  "index_union cols key =
     (if key = [] \<or> cols = key then cols
      else if cols = [] then key
      else if \<not> distinct key then union_with_duplicates cols key
      else cols @ filter (\<lambda>k. k \<notin> set cols) key)"

text \<open>
  The frame is then reindexed to the new column index, which raises when the columns
  change and a column label is repeated. When the key brings a label that is not a
  column, the first columns keep their cells, in position, and the others have no value
  yet; otherwise every label is an old column, whose cell is 0. Last, the row is assigned
  1 in every column whose label is in the key.
\<close>

definition one_hot :: "string list \<Rightarrow> string list \<Rightarrow> exn + frame" where
  "one_hot symptoms all_feats =
     (let keys = index_union all_feats symptoms;
          enlarged = list_ex (\<lambda>k. k \<notin> set all_feats) keys
      in if keys \<noteq> all_feats \<and> \<not> distinct all_feats
         then Inl (Exn ''cannot reindex on an axis with duplicate labels'')
         else Inr (map (\<lambda>(j, c). (c, if c \<in> set symptoms then Some 1
                                       else if enlarged \<and> length all_feats \<le> j then None
                                       else Some 0))
                       (enumerate 0 keys)))"

definition vector :: "frame \<Rightarrow> int option list" where
  "vector df = map snd df"

definition ones :: "int option list \<Rightarrow> nat" where
  "ones v = length (filter (\<lambda>x. x = Some 1) v)"

section \<open>Classifier and specialty mapping\<close>

text \<open>
  The classifier is loaded from disk and is opaque: \<^verbatim>\<open>predict\<close> returns a label or
  raises, \<^verbatim>\<open>predict_proba\<close> may be absent (\<^verbatim>\<open>hasattr(model, "predict_proba")\<close>) and
  returns one probability per class or raises. A label is a string, or some other value
  (a number), which has no \<^verbatim>\<open>lower\<close> method. Probabilities are compared only, and are
  modelled as reals.
\<close>

datatype label = LStr string | LNum int

record classifier =
  predict :: "frame \<Rightarrow> exn + label"
  predict_proba :: "(frame \<Rightarrow> exn + real list) option"
  classes_ :: "label list"

text \<open>
  The mapping of lines 93-100: disease name to the row of the mapping file, a dictionary
  with the keys \<^verbatim>\<open>Specialization\<close>, \<^verbatim>\<open>Classification\<close> and \<^verbatim>\<open>Taxonomy Code\<close>
  (missing cells are empty strings). A dictionary whose truth value the code tests is an
  association list, read with \<open>map_of\<close>; it is false when it is empty.
\<close>

type_synonym info = "(string \<times> string) list"
type_synonym mapping = "string \<rightharpoonup> info"

text \<open>\<^verbatim>\<open>y_pred.lower()\<close>: an \<^verbatim>\<open>AttributeError\<close> for a label that is not a string.\<close>

fun label_lower :: "label \<Rightarrow> exn + string" where
  "label_lower (LStr s) = Inr (lower s)"
| "label_lower (LNum n) = Inl (Exn ''object has no attribute lower'')"

text \<open>\<^verbatim>\<open>d.get(k)\<close> with a label as key; the keys of the mapping are strings.\<close>

fun get_label :: "mapping \<Rightarrow> label \<Rightarrow> info option" where
  "get_label d (LStr s) = d s"
| "get_label d (LNum n) = None"

text \<open>A dictionary is true when it is not empty; \<^verbatim>\<open>None\<close> is false.\<close>

definition truthy :: "info option \<Rightarrow> bool" where
  "truthy v = (case v of None \<Rightarrow> False | Some i \<Rightarrow> i \<noteq> [])"

text \<open>
  Lines 290-292:
  \<^verbatim>\<open>info = disease_to_specialty.get(y_pred.lower()) or disease_to_specialty.get(y_pred)\<close>
\<close>

definition lookup_info :: "mapping \<Rightarrow> label \<Rightarrow> exn + info option" where
  "lookup_info d y_pred =
     (case label_lower y_pred of
        Inl e \<Rightarrow> Inl e
      | Inr low \<Rightarrow> Inr (if truthy (d low) then d low else get_label d y_pred))"

text \<open>\<^verbatim>\<open>v or dflt\<close> for a string or \<^verbatim>\<open>None\<close> on the left: the empty string is false.\<close>

definition str_or :: "string option \<Rightarrow> string \<Rightarrow> string" where
  "str_or v dflt = (case v of None \<Rightarrow> dflt | Some s \<Rightarrow> if s \<noteq> [] then s else dflt)"

text \<open>Lines 294-297, the two values stored on a hit.\<close>

definition specialty_of :: "info \<Rightarrow> string" where
  "specialty_of i =
     str_or (map_of i ''Specialization'') (str_or (map_of i ''Classification'') [])"

definition taxonomy_of :: "info \<Rightarrow> string" where
  "taxonomy_of i = str_or (map_of i ''Taxonomy Code'') []"

section \<open>Ranking the classes\<close>

text \<open>
  Line 283: \<^verbatim>\<open>top_idx = np.argsort(probs)[-3:][::-1]\<close>. \<^verbatim>\<open>np.argsort\<close> is a parameter
  of the model. What numpy promises of its result is that it holds every index once and
  that the probabilities are in ascending order along it; it promises no order among
  equal probabilities. The slice \<^verbatim>\<open>[-3:]\<close> keeps the last three (all of them when
  there are fewer), and \<^verbatim>\<open>[::-1]\<close> reverses.
\<close>

definition argsort_result :: "real list \<Rightarrow> nat list \<Rightarrow> bool" where
  "argsort_result ps idx =
     (sort idx = [0 ..< length ps] \<and> sorted (map (\<lambda>i. ps ! i) idx))"

definition last3 :: "'a list \<Rightarrow> 'a list" where
  "last3 xs = drop (length xs - 3) xs"

definition top3 :: "(real list \<Rightarrow> nat list) \<Rightarrow> real list \<Rightarrow> nat list" where
  "top3 argsort ps = rev (last3 (argsort ps))"

text \<open>
  One sorting function that keeps numpy's promise, for the evaluations below: the
  insertion sort of the indices.
\<close>

definition insertion_argsort :: "real list \<Rightarrow> nat list" where
  "insertion_argsort ps = sort_key (\<lambda>i. ps ! i) [0 ..< length ps]"

record prediction_probs_entry =
  probs :: "real list"
  top_idx :: "nat list"

text \<open>
  Lines 315-318, the list under "Other possibilities": the loop over \<^verbatim>\<open>top_idx\<close> skips
  an index whose probability is below 0.05 and writes a line for every other one, with
  the class \<^verbatim>\<open>model.classes_[i]\<close> and the probability \<^verbatim>\<open>probs[i]\<close>. An entry of the
  list is the class index with its probability.
\<close>

definition other_possibilities :: "prediction_probs_entry \<Rightarrow> (nat \<times> real) list" where
  "other_possibilities pp =
     map (\<lambda>i. (i, probs pp ! i)) (filter (\<lambda>i. \<not> probs pp ! i < 5 / 100) (top_idx pp))"

section \<open>Session state and the predict action\<close>

record session =
  last_prediction :: "label option"
  recommended_specialty :: "string option"
  taxonomy_code :: "string option"
  prediction_probs :: "prediction_probs_entry option"
  show_providers :: bool

text \<open>Lines 241-250.\<close>

definition initial_session :: session where
  "initial_session =
     \<lparr>last_prediction = None, recommended_specialty = None, taxonomy_code = None,
      prediction_probs = None, show_providers = False\<rparr>"

definition prediction_failed :: "exn \<Rightarrow> ui list" where
  "prediction_failed e = [StError (''Prediction failed: '' @ message e)]"

text \<open>
  Lines 280-287: the probabilities, when the classifier has \<^verbatim>\<open>predict_proba\<close>.
\<close>

definition store_probs ::
  "(real list \<Rightarrow> nat list) \<Rightarrow> classifier \<Rightarrow> frame \<Rightarrow> session \<Rightarrow> exn + session" where
  "store_probs argsort model X s =
     (case predict_proba model of
        None \<Rightarrow> Inr s
      | Some proba \<Rightarrow>
          (case proba X of
             Inl e \<Rightarrow> Inl e
           | Inr ps \<Rightarrow> Inr (s\<lparr>prediction_probs := Some \<lparr>probs = ps, top_idx = top3 argsort ps\<rparr>\<rparr>)))"

text \<open>
  Lines 293-297: the lookup resolves to the pair of specialty and taxonomy code when it
  finds a row (\<^verbatim>\<open>if info:\<close>), and to nothing otherwise.
\<close>

definition resolve :: "mapping \<Rightarrow> label \<Rightarrow> exn + (string \<times> string) option" where
  "resolve d y_pred =
     (case lookup_info d y_pred of
        Inl e \<Rightarrow> Inl e
      | Inr v \<Rightarrow>
          (case v of
             None \<Rightarrow> Inr None
           | Some i \<Rightarrow> if i \<noteq> [] then Inr (Some (specialty_of i, taxonomy_of i)) else Inr None))"

text \<open>Lines 289-299: the specialty is stored only when the lookup finds a row.\<close>

definition store_specialty :: "mapping \<Rightarrow> label \<Rightarrow> session \<Rightarrow> exn + session" where
  "store_specialty d y_pred s =
     (case resolve d y_pred of
        Inl e \<Rightarrow> Inl e
      | Inr r \<Rightarrow>
          (case r of
             None \<Rightarrow> Inr s
           | Some (spec, taxonomy) \<Rightarrow>
               Inr (s\<lparr>recommended_specialty := Some spec, taxonomy_code := Some taxonomy\<rparr>)))"

text \<open>
  Lines 270-302, the handler of the predict button. \<open>argsort\<close> is \<^verbatim>\<open>np.argsort\<close>.
  The session state is written as
  the statements run, so an exception leaves the writes made before it; the
  \<^verbatim>\<open>except\<close> clause shows the message. The result is the session state after the
  handler and what the handler wrote to the page.
\<close>

definition predict_action ::
  "(real list \<Rightarrow> nat list) \<Rightarrow> classifier \<Rightarrow> string list \<Rightarrow> mapping \<Rightarrow> bool \<Rightarrow> string list
     \<Rightarrow> session \<Rightarrow> session \<times> ui list" where
  "predict_action argsort model all_symptoms disease_to_specialty predict_btn selected_symptoms s =
     (if predict_btn \<and> selected_symptoms \<noteq> [] then
        (case one_hot selected_symptoms all_symptoms of
           Inl e \<Rightarrow> (s, prediction_failed e)
         | Inr X \<Rightarrow>
             (case predict model X of
                Inl e \<Rightarrow> (s, prediction_failed e)
              | Inr y_pred \<Rightarrow>
                  (let s1 = s\<lparr>last_prediction := Some y_pred, show_providers := False\<rparr> in
                   case store_probs argsort model X s1 of
                     Inl e \<Rightarrow> (s1, prediction_failed e)
                   | Inr s2 \<Rightarrow>
                       (case store_specialty disease_to_specialty y_pred s2 of
                          Inl e \<Rightarrow> (s2, prediction_failed e)
                        | Inr s3 \<Rightarrow> (s3, [])))))
      else (s, []))"

text \<open>The action failed when it showed an error.\<close>

fun is_error :: "ui \<Rightarrow> bool" where
  "is_error (StError m) = True"
| "is_error _ = False"

definition failed :: "ui list \<Rightarrow> bool" where
  "failed out = list_ex is_error out"

section \<open>Provider lookup\<close>

text \<open>
  The registry's answer, as the page reads it: a dictionary that may hold the keys
  \<^verbatim>\<open>error\<close>, \<^verbatim>\<open>results\<close> and \<^verbatim>\<open>result_count\<close>; a key that is absent is \<open>None\<close>.
  A provider is a dictionary with the optional members \<^verbatim>\<open>enumeration_type\<close>,
  \<^verbatim>\<open>basic\<close>, \<^verbatim>\<open>addresses\<close> and \<^verbatim>\<open>taxonomies\<close>; the members of \<^verbatim>\<open>basic\<close> and of an
  address are strings (association lists from member name to value), a taxonomy has the boolean \<^verbatim>\<open>primary\<close> and the string
  \<^verbatim>\<open>desc\<close>.
\<close>

record taxonomy =
  primary :: "bool option"
  desc :: "string option"

record provider =
  enumeration_type :: "string option"
  basic :: "(string \<times> string) list option"
  addresses :: "(string \<times> string) list list option"
  taxonomies :: "taxonomy list option"

record result_dict =
  error :: "string option"
  results :: "provider list option"
  result_count :: "int option"

text \<open>The dictionary \<^verbatim>\<open>{"error": reason}\<close> of lines 154-158.\<close>

definition error_dict :: "string \<Rightarrow> result_dict" where
  "error_dict reason = \<lparr>error = Some reason, results = None, result_count = None\<rparr>"

text \<open>
  What \<^verbatim>\<open>requests.get\<close> returns: the status code, and the body as \<^verbatim>\<open>response.json()\<close>
  decodes it, which raises when the body is not JSON.
\<close>

record response =
  status_code :: int
  json :: "exn + result_dict"

text \<open>\<^verbatim>\<open>params[key] = value\<close> on a dictionary that keeps the order of insertion.\<close>

fun dict_set :: "(string \<times> string) list \<Rightarrow> string \<Rightarrow> string \<Rightarrow> (string \<times> string) list" where
  "dict_set [] k v = [(k, v)]"
| "dict_set ((k', v') # ps) k v = (if k' = k then (k, v) # ps else (k', v') # dict_set ps k v)"

fun join :: "string \<Rightarrow> string list \<Rightarrow> string" where
  "join sep [] = []"
| "join sep [x] = x"
| "join sep (x # y # ys) = x @ sep @ join sep (y # ys)"

text \<open>Lines 122-147: the URL of the request. \<^verbatim>\<open>quote\<close> is \<^verbatim>\<open>urllib.parse.quote\<close>.\<close>

definition base_url :: string where
  "base_url = ''https://npiregistry.cms.hhs.gov/api/''"

definition build_params ::
  "(string \<Rightarrow> string) \<Rightarrow> string \<Rightarrow> int \<Rightarrow> (string \<times> string) list option \<Rightarrow> (string \<times> string) list" where
  "build_params quote specialty limit location =
     (let params = [(''taxonomy_description'', quote specialty), (''limit'', str_int limit),
                    (''version'', ''2.1''), (''pretty'', [])]
      in case location of
           None \<Rightarrow> params
         | Some loc \<Rightarrow> foldl (\<lambda>ps (key, value). if value \<noteq> [] then dict_set ps key value else ps) params loc)"

definition full_url ::
  "(string \<Rightarrow> string) \<Rightarrow> string \<Rightarrow> int \<Rightarrow> (string \<times> string) list option \<Rightarrow> string" where
  "full_url quote specialty limit location =
     base_url @ ''?'' @
     join ''&'' (map (\<lambda>(key, value). key @ ''='' @ value) (build_params quote specialty limit location))"

text \<open>
  Lines 149-158: the request and its outcome. \<open>requests_get\<close> is the transport: it
  returns a response or raises.
\<close>

definition fetch_providers_by_specialty ::
  "(string \<Rightarrow> string) \<Rightarrow> (string \<Rightarrow> exn + response) \<Rightarrow> string \<Rightarrow> int
     \<Rightarrow> (string \<times> string) list option \<Rightarrow> result_dict" where
  "fetch_providers_by_specialty quote requests_get specialty limit location =
     (case requests_get (full_url quote specialty limit location) of
        Inl e \<Rightarrow> error_dict (message e)
      | Inr resp \<Rightarrow>
          if status_code resp = 200
          then (case json resp of Inl e \<Rightarrow> error_dict (message e) | Inr body \<Rightarrow> body)
          else error_dict (''API request failed with status code '' @ str_int (status_code resp)))"

section \<open>Rendering the providers\<close>

text \<open>\<^verbatim>\<open>d.get(key, '')\<close> on a dictionary of strings.\<close>

definition get_str :: "(string \<times> string) list \<Rightarrow> string \<Rightarrow> string" where
  "get_str d key = (case map_of d key of None \<Rightarrow> [] | Some v \<Rightarrow> v)"

text \<open>\<^verbatim>\<open>provider.get('basic', {})\<close>\<close>

definition get_basic :: "provider \<Rightarrow> (string \<times> string) list" where
  "get_basic p = (case basic p of None \<Rightarrow> [] | Some b \<Rightarrow> b)"

text \<open>Lines 182-189: the display name.\<close>

definition provider_name :: "provider \<Rightarrow> string" where
  "provider_name p =
     (if enumeration_type p = Some ''NPI-1''
      then get_str (get_basic p) ''first_name'' @ '' '' @ get_str (get_basic p) ''last_name''
      else (case map_of (get_basic p) ''organization_name'' of
              None \<Rightarrow> ''Unknown Provider''
            | Some n \<Rightarrow> n))"

text \<open>Lines 191-201: the first address of purpose LOCATION, the first primary taxonomy.\<close>

definition location_address :: "provider \<Rightarrow> (string \<times> string) list option" where
  "location_address p =
     find (\<lambda>a. map_of a ''address_purpose'' = Some ''LOCATION'')
          (case addresses p of None \<Rightarrow> [] | Some as \<Rightarrow> as)"

definition primary_taxonomy :: "provider \<Rightarrow> taxonomy option" where
  "primary_taxonomy p =
     find (\<lambda>t. primary t = Some True) (case taxonomies p of None \<Rightarrow> [] | Some ts \<Rightarrow> ts)"

text \<open>The telephone sign of line 222, in UTF-8.\<close>

definition telephone_sign :: string where
  "telephone_sign = [char_of (240::nat), char_of (159::nat), char_of (147::nat), char_of (158::nat)]"

text \<open>Lines 209-224: the address block of the card.\<close>

definition render_address :: "(string \<times> string) list \<Rightarrow> ui list" where
  "render_address a =
     (let address_line =
            get_str a ''address_1'' @
            (if get_str a ''address_2'' \<noteq> [] then '', '' @ get_str a ''address_2'' else []);
          city_state =
            get_str a ''city'' @ '', '' @ get_str a ''state'' @ '' '' @ get_str a ''postal_code''
      in StMarkdown (''<div class='provider-address'>'' @ address_line @ ''<br>'' @ city_state @ ''</div>'')
         # (if get_str a ''telephone_number'' \<noteq> []
            then [StMarkdown (''<div class='provider-contact'>'' @ telephone_sign @ '' ''
                               @ get_str a ''telephone_number'' @ ''</div>'')]
            else []))"

text \<open>Lines 203-233: the card of one provider.\<close>

definition render_provider :: "provider \<Rightarrow> ui list" where
  "render_provider p =
     StMarkdown (''<div class='provider-name'>'' @ provider_name p @ ''</div>'')
     # (case location_address p of
          None \<Rightarrow> []
        | Some a \<Rightarrow> if a \<noteq> [] then render_address a else [])
     @ (case primary_taxonomy p of
          None \<Rightarrow> []
        | Some t \<Rightarrow>
            [StMarkdown (''<div class='provider-taxonomy'>''
                         @ (case desc t of None \<Rightarrow> [] | Some d \<Rightarrow> d) @ ''</div>'')])
     @ [StMarkdown ''</div>'']"

text \<open>
  Lines 161-233. The first guard is \<^verbatim>\<open>not results or "results" not in results\<close>; a
  dictionary that is empty has no key \<^verbatim>\<open>results\<close>, so the guard is the absence of
  that key.
\<close>

definition render_provider_results :: "result_dict \<Rightarrow> ui list" where
  "render_provider_results res =
     (case results res of
        None \<Rightarrow> [StWarning ''No provider results found.'']
      | Some providers \<Rightarrow>
          (case error res of
             Some reason \<Rightarrow> [StError (''Error fetching providers: '' @ reason)]
           | None \<Rightarrow>
               (let count = (case result_count res of None \<Rightarrow> 0 | Some n \<Rightarrow> n) in
                if count = 0
                then [StInfo ''No providers found for this specialty in the selected location.'']
                else StWrite (''Found '' @ str_int count @ '' providers. Showing top ''
                              @ str_nat (length providers) @ '':'')
                     # concat (map render_provider providers))))"

section \<open>A sample deployment\<close>

text \<open>
  Sample inputs for the evaluations below: three symptoms, a mapping file with a row for
  flu only, a classifier that answers measles when rash is selected and flu otherwise
  and whose probability estimate raises when cough is selected, and the session state
  after a first prediction with fever selected.
\<close>

definition demo_features :: "string list" where
  "demo_features = [''fever'', ''cough'', ''rash'']"

definition demo_mapping :: mapping where
  "demo_mapping =
     [''flu'' \<mapsto> [(''Specialization'', ''Infectious Disease''),
                    (''Classification'', ''Internal Medicine''),
                    (''Taxonomy Code'', ''207RI0200X'')]]"

definition demo_model :: classifier where
  "demo_model =
     \<lparr>predict = (\<lambda>X. if map_of X ''rash'' = Some (Some 1) then Inr (LStr ''Measles'') else Inr (LStr ''Flu'')),
      predict_proba = Some (\<lambda>X. if map_of X ''cough'' = Some (Some 1) then Inl (Exn ''boom'')
                                 else if map_of X ''rash'' = Some (Some 1) then Inr [1 / 10, 9 / 10]
                                 else Inr [9 / 10, 1 / 10]),
      classes_ = [LStr ''Flu'', LStr ''Measles'']\<rparr>"

definition after_flu :: session where
  "after_flu =
     \<lparr>last_prediction = Some (LStr ''Flu''), recommended_specialty = Some ''Infectious Disease'',
      taxonomy_code = Some ''207RI0200X'',
      prediction_probs = Some \<lparr>probs = [9 / 10, 1 / 10], top_idx = [0, 1]\<rparr>,
      show_providers = False\<rparr>"

text \<open>
  Three behaviours of the transport: the registry answers 404, it answers 200 with no
  match, the connection is refused. Two providers: an individual, and an organisation
  without a name.
\<close>

definition not_found :: "string \<Rightarrow> exn + response" where
  "not_found url = Inr \<lparr>status_code = 404, json = Inl (Exn ''Expecting value'')\<rparr>"

definition no_match :: "string \<Rightarrow> exn + response" where
  "no_match url =
     Inr \<lparr>status_code = 200, json = Inr \<lparr>error = None, results = Some [], result_count = Some 0\<rparr>\<rparr>"

definition refused :: "string \<Rightarrow> exn + response" where
  "refused url = Inl (Exn ''Connection refused'')"

definition jane :: provider where
  "jane = \<lparr>enumeration_type = Some ''NPI-1'',
           basic = Some [(''first_name'', ''Jane''), (''last_name'', ''Doe'')],
           addresses = None, taxonomies = None\<rparr>"

definition nameless :: provider where
  "nameless = \<lparr>enumeration_type = Some ''NPI-2'', basic = Some [(''status'', ''A'')],
               addresses = None, taxonomies = None\<rparr>"

section \<open>Properties of the feature encoder\<close>

lemma index_union_distinct:
  "distinct key \<Longrightarrow> index_union cols key = cols @ filter (\<lambda>k. k \<notin> set cols) key"
  by (auto simp: index_union_def filter_empty_conv)

lemma cells_eq:
  assumes "\<And>j. j < length keys \<Longrightarrow> f j (keys ! j) = g (keys ! j)"
  shows "map (\<lambda>(j, c). (c, f j c)) (enumerate 0 keys) = map (\<lambda>c. (c, g c)) keys"
  by (rule nth_equalityI) (simp_all add: nth_enumerate_eq assms)

lemma one_hot_distinct:
  assumes "distinct symptoms"
    and "distinct all_feats \<or> set symptoms \<subseteq> set all_feats"
  shows "one_hot symptoms all_feats =
           Inr (map (\<lambda>c. (c, if c \<in> set symptoms then Some 1 else Some 0))
                    (all_feats @ filter (\<lambda>k. k \<notin> set all_feats) symptoms))"
proof -
  let ?new = "filter (\<lambda>k. k \<notin> set all_feats) symptoms"
  let ?keys = "all_feats @ ?new"
  have keys: "index_union all_feats symptoms = ?keys"
    by (rule index_union_distinct) (rule assms(1))
  have ok: "\<not> (?keys \<noteq> all_feats \<and> \<not> distinct all_feats)"
    using assms(2) by (auto simp: filter_empty_conv)
  have cell: "(if ?keys ! j \<in> set symptoms then Some 1
               else if list_ex (\<lambda>k. k \<notin> set all_feats) ?keys \<and> length all_feats \<le> j then None
               else Some (0::int))
              = (if ?keys ! j \<in> set symptoms then Some 1 else Some 0)"
    if "j < length ?keys" for j
  proof (cases "j < length all_feats")
    case True
    then show ?thesis by simp
  next
    case False
    with that have "j - length all_feats < length ?new" by simp
    then have "?new ! (j - length all_feats) \<in> set ?new" by (rule nth_mem)
    with False have "?keys ! j \<in> set ?new" by (simp add: nth_append)
    then show ?thesis by simp
  qed
  have "map (\<lambda>(j, c). (c, if c \<in> set symptoms then Some 1
                            else if list_ex (\<lambda>k. k \<notin> set all_feats) ?keys \<and> length all_feats \<le> j then None
                            else Some (0::int))) (enumerate 0 ?keys)
        = map (\<lambda>c. (c, if c \<in> set symptoms then Some 1 else Some 0)) ?keys"
    by (rule cells_eq) (rule cell)
  with ok show ?thesis
    unfolding one_hot_def keys Let_def by simp
qed

lemma ones_count:
  "distinct fs \<Longrightarrow>
   length (filter (\<lambda>x. x = Some (1::int)) (map (\<lambda>c. if c \<in> S then Some 1 else Some 0) fs))
     = card (S \<inter> set fs)"
proof (induction fs)
  case Nil
  then show ?case by simp
next
  case (Cons f fs)
  then have d: "f \<notin> set fs" "distinct fs" by simp_all
  show ?case
  proof (cases "f \<in> S")
    case True
    then have "S \<inter> set (f # fs) = insert f (S \<inter> set fs)" by auto
    moreover have "f \<notin> S \<inter> set fs" using d by simp
    ultimately have "card (S \<inter> set (f # fs)) = Suc (card (S \<inter> set fs))" by simp
    with True Cons.IH d show ?thesis by simp
  next
    case False
    then have "S \<inter> set (f # fs) = S \<inter> set fs" by auto
    with False Cons.IH d show ?thesis by simp
  qed
qed

text \<open>
  Claim C5. For a selection of distinct symptoms drawn from the feature list, the
  encoder returns a frame whose columns are the feature list; the encoded vector is as
  long as the feature list, position \<open>i\<close> holds 1 exactly when the \<open>i\<close>-th feature is
  selected and 0 otherwise, and (the feature list holding unique identifiers, as the data
  model has it) the number of ones is the size of the intersection of the selection with
  the feature list.
\<close>

theorem one_hot_encodes_selection:
  assumes "distinct symptoms" and "set symptoms \<subseteq> set all_feats"
  shows "\<exists>df. one_hot symptoms all_feats = Inr df
       \<and> map fst df = all_feats
       \<and> length (vector df) = length all_feats
       \<and> (\<forall>i < length all_feats.
             vector df ! i = (if all_feats ! i \<in> set symptoms then Some 1 else Some 0))
       \<and> (\<forall>i < length all_feats. vector df ! i = Some 1 \<longleftrightarrow> all_feats ! i \<in> set symptoms)
       \<and> (distinct all_feats \<longrightarrow> ones (vector df) = card (set symptoms \<inter> set all_feats))"
proof -
  let ?df = "map (\<lambda>c. (c, if c \<in> set symptoms then Some 1 else Some (0::int))) all_feats"
  have "filter (\<lambda>k. k \<notin> set all_feats) symptoms = []"
    using assms(2) by (auto simp: filter_empty_conv)
  then have df: "one_hot symptoms all_feats = Inr ?df"
    using one_hot_distinct [of symptoms all_feats] assms by simp
  have v: "vector ?df = map (\<lambda>c. if c \<in> set symptoms then Some 1 else Some 0) all_feats"
    by (simp add: vector_def comp_def)
  have f: "map fst ?df = all_feats"
    by (simp add: comp_def)
  have "length (vector ?df) = length all_feats
       \<and> (\<forall>i < length all_feats.
             vector ?df ! i = (if all_feats ! i \<in> set symptoms then Some 1 else Some 0))
       \<and> (\<forall>i < length all_feats. vector ?df ! i = Some 1 \<longleftrightarrow> all_feats ! i \<in> set symptoms)
       \<and> (distinct all_feats \<longrightarrow> ones (vector ?df) = card (set symptoms \<inter> set all_feats))"
    unfolding v ones_def using ones_count [of all_feats "set symptoms"] by simp
  with df f show ?thesis by blast
qed

theorem one_hot_encodes_selection_witness:
  "distinct [''fever'', ''cough''] \<and> set [''fever'', ''cough''] \<subseteq> set [''cough'', ''rash'', ''fever'']
   \<and> distinct [''cough'', ''rash'', ''fever'']
   \<and> one_hot [''fever'', ''cough''] [''cough'', ''rash'', ''fever'']
       = Inr [(''cough'', Some 1), (''rash'', Some 0), (''fever'', Some 1)]
   \<and> ones (vector [(''cough'', Some 1), (''rash'', Some 0), (''fever'', Some 1)])
       = card (set [''fever'', ''cough''] \<inter> set [''cough'', ''rash'', ''fever''])"
proof -
  have h: "distinct [''fever'', ''cough'']" "set [''fever'', ''cough''] \<subseteq> set [''cough'', ''rash'', ''fever'']"
    by simp_all
  have d: "distinct [''cough'', ''rash'', ''fever'']" by simp
  have v: "one_hot [''fever'', ''cough''] [''cough'', ''rash'', ''fever'']
             = Inr [(''cough'', Some 1), (''rash'', Some 0), (''fever'', Some 1)]"
    by (simp add: one_hot_def index_union_def enumerate_eq_zip upt_conv_Cons)
  from one_hot_encodes_selection [OF h] d v
  have "ones (vector [(''cough'', Some 1), (''rash'', Some 0), (''fever'', Some 1)])
        = card (set [''fever'', ''cough''] \<inter> set [''cough'', ''rash'', ''fever''])"
    by auto
  with h d v show ?thesis by blast
qed

text \<open>
  Claim C2, as the code has it. For a selection of distinct identifiers and a feature
  list of unique identifiers the encoder returns normally. An identifier that is not in
  the feature list is not ignored: it becomes a new column, after the columns of the
  feature list and in the order of the selection, holding 1, so the vector grows by one
  entry for each unknown identifier. The entries at the positions of the feature list
  are those of the encoding of the known identifiers alone.
\<close>

theorem one_hot_unknown_appended:
  assumes "distinct S" and "distinct F"
  shows "\<exists>df known. one_hot S F = Inr df
       \<and> one_hot (filter (\<lambda>s. s \<in> set F) S) F = Inr known
       \<and> map fst df = F @ filter (\<lambda>s. s \<notin> set F) S
       \<and> map fst known = F
       \<and> vector df = vector known @ replicate (length (filter (\<lambda>s. s \<notin> set F) S)) (Some 1)"
proof -
  let ?new = "filter (\<lambda>s. s \<notin> set F) S"
  let ?old = "filter (\<lambda>s. s \<in> set F) S"
  let ?df = "map (\<lambda>c. (c, if c \<in> set S then Some 1 else Some (0::int))) (F @ ?new)"
  let ?known = "map (\<lambda>c. (c, if c \<in> set ?old then Some 1 else Some (0::int))) F"
  have df: "one_hot S F = Inr ?df"
    using one_hot_distinct [of S F] assms by simp
  have "filter (\<lambda>k. k \<notin> set F) ?old = []"
    by (auto simp: filter_empty_conv)
  then have known: "one_hot ?old F = Inr ?known"
    using one_hot_distinct [of ?old F] assms by simp
  have a: "map (\<lambda>c. if c \<in> set S then Some 1 else Some (0::int)) F =
           map (\<lambda>c. if c \<in> set ?old then Some 1 else Some 0) F"
    by (rule map_cong) auto
  have b: "map (\<lambda>c. if c \<in> set S then Some 1 else Some (0::int)) ?new =
           replicate (length ?new) (Some 1)"
    by (rule nth_equalityI) (auto dest: nth_mem)
  have v: "vector ?df = vector ?known @ replicate (length ?new) (Some 1)"
    using a b by (simp add: vector_def comp_def)
  have f: "map fst ?df = F @ ?new" "map fst ?known = F"
    by (simp_all add: comp_def)
  from df known f v show ?thesis by blast
qed

text \<open>
  Claim C2 as the specification states it fails: with the unknown identifier \<open>zzz\<close> the
  frame has three columns, without it two.
\<close>

theorem one_hot_unknown_counterexample:
  "one_hot [''fever'', ''zzz''] [''fever'', ''cough'']
     = Inr [(''fever'', Some 1), (''cough'', Some 0), (''zzz'', Some 1)]
   \<and> one_hot [''fever''] [''fever'', ''cough''] = Inr [(''fever'', Some 1), (''cough'', Some 0)]"
  by (simp add: one_hot_def index_union_def enumerate_eq_zip upt_conv_Cons)

theorem one_hot_unknown_appended_witness:
  "distinct [''fever'', ''zzz''] \<and> distinct [''fever'', ''cough'']
   \<and> (\<exists>df. one_hot [''fever'', ''zzz''] [''fever'', ''cough''] = Inr df
          \<and> map fst df = [''fever'', ''cough'', ''zzz'']
          \<and> vector df = [Some 1, Some 0, Some 1])"
proof -
  have h: "distinct [''fever'', ''zzz'']" "distinct [''fever'', ''cough'']" by simp_all
  have k: "one_hot [''fever''] [''fever'', ''cough''] = Inr [(''fever'', Some 1), (''cough'', Some 0)]"
    by (simp add: one_hot_def index_union_def enumerate_eq_zip upt_conv_Cons)
  from one_hot_unknown_appended [OF h] k
  have "\<exists>df. one_hot [''fever'', ''zzz''] [''fever'', ''cough''] = Inr df
          \<and> map fst df = [''fever'', ''cough'', ''zzz'']
          \<and> vector df = [Some 1, Some 0, Some 1]"
    by (auto simp: vector_def)
  with h show ?thesis by blast
qed

section \<open>Properties of the ranking\<close>

lemma length_last3: "length (last3 xs) \<le> 3"
  by (simp add: last3_def)

lemma set_last3: "set (last3 xs) \<subseteq> set xs"
  unfolding last3_def by (rule set_drop_subset)

lemma argsort_result_set: "argsort_result ps idx \<Longrightarrow> set idx = {0 ..< length ps}"
proof -
  assume "argsort_result ps idx"
  then have "sort idx = [0 ..< length ps]" by (simp add: argsort_result_def)
  then have "set (sort idx) = set [0 ..< length ps]" by simp
  then show ?thesis by simp
qed

lemma insertion_argsort_result: "argsort_result ps (insertion_argsort ps)"
proof -
  have "sort (sort_key (\<lambda>i. ps ! i) [0 ..< length ps]) = sort [0 ..< length ps]"
    by (rule properties_for_sort [symmetric]) simp_all
  then show ?thesis
    by (simp add: argsort_result_def insertion_argsort_def sorted_sort_id)
qed

text \<open>
  Claim C3, as the code has it. Whatever order the sort gives to equal probabilities,
  the list under "Other possibilities" has at most three entries, none with a
  probability below 0.05, each the probability of its class, and the probabilities do
  not increase along the list. Nothing is said of the order of two classes with the same
  probability.
\<close>

theorem other_possibilities_ranked:
  assumes "argsort_result ps (argsort ps)"
  shows "length (other_possibilities \<lparr>probs = ps, top_idx = top3 argsort ps\<rparr>) \<le> 3
       \<and> (\<forall>(i, p) \<in> set (other_possibilities \<lparr>probs = ps, top_idx = top3 argsort ps\<rparr>).
             i < length ps \<and> p = ps ! i \<and> 5 / 100 \<le> p)
       \<and> sorted_wrt (\<lambda>(i, p) (j, q). q \<le> p)
           (other_possibilities \<lparr>probs = ps, top_idx = top3 argsort ps\<rparr>)"
proof -
  let ?idx = "argsort ps"
  let ?shown = "filter (\<lambda>i. \<not> ps ! i < 5 / 100) (top3 argsort ps)"
  have op: "other_possibilities \<lparr>probs = ps, top_idx = top3 argsort ps\<rparr>
              = map (\<lambda>i. (i, ps ! i)) ?shown"
    by (simp add: other_possibilities_def)
  have "length (top3 argsort ps) \<le> 3"
    by (simp add: top3_def length_last3)
  then have len: "length ?shown \<le> 3"
    by (rule le_trans [OF length_filter_le])
  have "set (top3 argsort ps) \<subseteq> {0 ..< length ps}"
    using set_last3 [of ?idx] argsort_result_set [OF assms] by (simp add: top3_def)
  then have mem: "\<forall>i \<in> set ?shown. i < length ps \<and> 5 / 100 \<le> ps ! i"
    by auto
  have "sorted_wrt (\<lambda>i j. ps ! i \<le> ps ! j) ?idx"
    using assms by (simp add: argsort_result_def sorted_map)
  then have "sorted_wrt (\<lambda>i j. ps ! i \<le> ps ! j) (last3 ?idx)"
    unfolding last3_def by (rule sorted_wrt_drop)
  then have "sorted_wrt (\<lambda>i j. ps ! j \<le> ps ! i) (top3 argsort ps)"
    by (simp add: top3_def sorted_wrt_rev)
  then have "sorted_wrt (\<lambda>i j. ps ! j \<le> ps ! i) ?shown"
    by (rule sorted_wrt_filter)
  then have srt: "sorted_wrt (\<lambda>(i, p) (j, q). q \<le> p) (map (\<lambda>i. (i, ps ! i)) ?shown)"
    by (simp add: sorted_wrt_map)
  show ?thesis unfolding op using len mem srt by auto
qed

text \<open>
  Claim C3 as the specification states it fails on a tie: for two classes with
  probability 0.5 the ascending order 0, 1 is a result that the sort may give, and then
  class 1 is listed before class 0.
\<close>

theorem other_possibilities_tie_counterexample:
  "argsort_result [1 / 2, 1 / 2] [0, 1]
   \<and> other_possibilities \<lparr>probs = [1 / 2, 1 / 2], top_idx = top3 (\<lambda>ps. [0, 1]) [1 / 2, 1 / 2]\<rparr>
       = [(1, 1 / 2), (0, 1 / 2)]
   \<and> insertion_argsort [1 / 2, 1 / 2] = [0, 1]"
  by (simp add: argsort_result_def other_possibilities_def top3_def last3_def
        insertion_argsort_def upt_conv_Cons)

theorem other_possibilities_ranked_witness:
  "argsort_result [2 / 10, 7 / 10, 4 / 100, 2 / 10, 1 / 10] [2, 4, 3, 0, 1]
   \<and> other_possibilities \<lparr>probs = [2 / 10, 7 / 10, 4 / 100, 2 / 10, 1 / 10],
                          top_idx = top3 (\<lambda>ps. [2, 4, 3, 0, 1]) [2 / 10, 7 / 10, 4 / 100, 2 / 10, 1 / 10]\<rparr>
       = [(1, 7 / 10), (0, 2 / 10), (3, 2 / 10)]
   \<and> length (other_possibilities \<lparr>probs = [2 / 10, 7 / 10, 4 / 100, 2 / 10, 1 / 10],
                          top_idx = top3 (\<lambda>ps. [2, 4, 3, 0, 1]) [2 / 10, 7 / 10, 4 / 100, 2 / 10, 1 / 10]\<rparr>) \<le> 3"
proof -
  have h: "argsort_result [2 / 10, 7 / 10, 4 / 100, 2 / 10, 1 / 10] [2, 4, 3, 0, 1]"
    by (simp add: argsort_result_def upt_conv_Cons)
  have v: "other_possibilities \<lparr>probs = [2 / 10, 7 / 10, 4 / 100, 2 / 10, 1 / 10],
                          top_idx = top3 (\<lambda>ps. [2, 4, 3, 0, 1]) [2 / 10, 7 / 10, 4 / 100, 2 / 10, 1 / 10]\<rparr>
       = [(1, 7 / 10), (0, 2 / 10), (3, 2 / 10)]"
    by (simp add: other_possibilities_def top3_def last3_def)
  from other_possibilities_ranked [of "[2 / 10, 7 / 10, 4 / 100, 2 / 10, 1 / 10]" "\<lambda>ps. [2, 4, 3, 0, 1]", OF h]
  have "length (other_possibilities \<lparr>probs = [2 / 10, 7 / 10, 4 / 100, 2 / 10, 1 / 10],
                          top_idx = top3 (\<lambda>ps. [2, 4, 3, 0, 1]) [2 / 10, 7 / 10, 4 / 100, 2 / 10, 1 / 10]\<rparr>) \<le> 3"
    by blast
  with h v show ?thesis by blast
qed

section \<open>Properties of the predict action\<close>

lemma store_probs_Inl:
  "store_probs argsort model X s = Inl e \<longleftrightarrow>
     (\<exists>proba. predict_proba model = Some proba \<and> proba X = Inl e)"
  by (auto simp: store_probs_def split: option.splits sum.splits)

lemma store_probs_Inr:
  assumes "store_probs argsort model X s = Inr s'"
  shows "last_prediction s' = last_prediction s"
    and "show_providers s' = show_providers s"
    and "recommended_specialty s' = recommended_specialty s"
    and "taxonomy_code s' = taxonomy_code s"
    and "predict_proba model = None \<Longrightarrow> s' = s"
    and "predict_proba model = Some proba \<Longrightarrow>
           \<exists>ps. proba X = Inr ps
                \<and> s' = s\<lparr>prediction_probs := Some \<lparr>probs = ps, top_idx = top3 argsort ps\<rparr>\<rparr>"
  using assms by (auto simp: store_probs_def split: option.splits sum.splits)

lemma store_specialty_Inl:
  "store_specialty d y s = Inl e \<longleftrightarrow> resolve d y = Inl e"
  by (auto simp: store_specialty_def split: option.splits sum.splits)

lemma store_specialty_Inr:
  assumes "store_specialty d y s = Inr s'"
  shows "last_prediction s' = last_prediction s"
    and "show_providers s' = show_providers s"
    and "prediction_probs s' = prediction_probs s"
    and "resolve d y = Inr (Some (spec, taxonomy)) \<Longrightarrow>
           s' = s\<lparr>recommended_specialty := Some spec, taxonomy_code := Some taxonomy\<rparr>"
    and "resolve d y = Inr None \<Longrightarrow> s' = s"
  using assms by (auto simp: store_specialty_def split: option.splits sum.splits)

lemma failed_prediction_failed: "failed (prediction_failed e)"
  by (simp add: failed_def prediction_failed_def)

lemma not_failed_Nil: "\<not> failed []"
  by (simp add: failed_def)

lemma predict_action_encoding_raises:
  "selected \<noteq> [] \<Longrightarrow> one_hot selected all_symptoms = Inl e \<Longrightarrow>
   predict_action argsort model all_symptoms d True selected s = (s, prediction_failed e)"
  by (simp add: predict_action_def)

lemma predict_action_predict_raises:
  "selected \<noteq> [] \<Longrightarrow> one_hot selected all_symptoms = Inr X \<Longrightarrow> predict model X = Inl e \<Longrightarrow>
   predict_action argsort model all_symptoms d True selected s = (s, prediction_failed e)"
  by (simp add: predict_action_def)

lemma predict_action_proba_raises:
  "selected \<noteq> [] \<Longrightarrow> one_hot selected all_symptoms = Inr X \<Longrightarrow> predict model X = Inr y \<Longrightarrow>
   predict_proba model = Some proba \<Longrightarrow> proba X = Inl e \<Longrightarrow>
   predict_action argsort model all_symptoms d True selected s
     = (s\<lparr>last_prediction := Some y, show_providers := False\<rparr>, prediction_failed e)"
  by (simp add: predict_action_def store_probs_def)

lemma predict_action_resolve_raises:
  "selected \<noteq> [] \<Longrightarrow> one_hot selected all_symptoms = Inr X \<Longrightarrow> predict model X = Inr y \<Longrightarrow>
   store_probs argsort model X (s\<lparr>last_prediction := Some y, show_providers := False\<rparr>) = Inr s2 \<Longrightarrow>
   resolve d y = Inl e \<Longrightarrow>
   predict_action argsort model all_symptoms d True selected s = (s2, prediction_failed e)"
  by (simp add: predict_action_def store_specialty_def)

lemma predict_action_completes:
  "selected \<noteq> [] \<Longrightarrow> one_hot selected all_symptoms = Inr X \<Longrightarrow> predict model X = Inr y \<Longrightarrow>
   store_probs argsort model X (s\<lparr>last_prediction := Some y, show_providers := False\<rparr>) = Inr s2 \<Longrightarrow>
   store_specialty d y s2 = Inr s3 \<Longrightarrow>
   predict_action argsort model all_symptoms d True selected s = (s3, [])"
  by (simp add: predict_action_def)

lemma predict_action_failed_state:
  assumes "failed (snd (predict_action argsort model all_symptoms d btn selected s))"
  shows "recommended_specialty (fst (predict_action argsort model all_symptoms d btn selected s))
           = recommended_specialty s
       \<and> taxonomy_code (fst (predict_action argsort model all_symptoms d btn selected s))
           = taxonomy_code s"
  using assms
  by (auto simp: predict_action_def not_failed_Nil Let_def
           dest: store_probs_Inr(3,4) split: if_splits sum.splits)

text \<open>
  Claim C1, as the code has it. An exception raised in the predict action, in the
  encoding, in \<^verbatim>\<open>model.predict\<close>, in the probability estimate or in the specialty
  lookup, is caught and shown as "Prediction failed:" with its message. When it is raised
  by the encoding or by \<^verbatim>\<open>model.predict\<close>, the session state is unchanged. When it is
  raised by the probability estimate, the new label is already stored in
  \<open>last_prediction\<close> and \<open>show_providers\<close> is already false, and nothing else has
  changed. When it is raised by the specialty lookup, the new probabilities are stored as
  well. The recommended specialty and the taxonomy code keep their values whenever an
  error is shown.
\<close>

theorem predict_action_failure:
  assumes "selected \<noteq> []"
  shows "(one_hot selected all_symptoms = Inl e \<longrightarrow>
            predict_action argsort model all_symptoms d True selected s
              = (s, [StError (''Prediction failed: '' @ message e)]))
       \<and> (one_hot selected all_symptoms = Inr X \<and> predict model X = Inl e \<longrightarrow>
            predict_action argsort model all_symptoms d True selected s
              = (s, [StError (''Prediction failed: '' @ message e)]))
       \<and> (one_hot selected all_symptoms = Inr X \<and> predict model X = Inr y
            \<and> predict_proba model = Some proba \<and> proba X = Inl e \<longrightarrow>
            predict_action argsort model all_symptoms d True selected s
              = (s\<lparr>last_prediction := Some y, show_providers := False\<rparr>,
                 [StError (''Prediction failed: '' @ message e)]))
       \<and> (one_hot selected all_symptoms = Inr X \<and> predict model X = Inr y
            \<and> store_probs argsort model X (s\<lparr>last_prediction := Some y, show_providers := False\<rparr>) = Inr s2
            \<and> resolve d y = Inl e \<longrightarrow>
            predict_action argsort model all_symptoms d True selected s
              = (s2, [StError (''Prediction failed: '' @ message e)])
            \<and> last_prediction s2 = Some y \<and> show_providers s2 = False
            \<and> recommended_specialty s2 = recommended_specialty s
            \<and> taxonomy_code s2 = taxonomy_code s)
       \<and> (failed (snd (predict_action argsort model all_symptoms d True selected s)) \<longrightarrow>
            recommended_specialty (fst (predict_action argsort model all_symptoms d True selected s))
              = recommended_specialty s
            \<and> taxonomy_code (fst (predict_action argsort model all_symptoms d True selected s))
              = taxonomy_code s)"
proof -
  have c1: "predict_action argsort model all_symptoms d True selected s
              = (s, [StError (''Prediction failed: '' @ message e)])"
    if "one_hot selected all_symptoms = Inl e"
    using predict_action_encoding_raises [OF assms that] by (simp add: prediction_failed_def)
  have c2: "predict_action argsort model all_symptoms d True selected s
              = (s, [StError (''Prediction failed: '' @ message e)])"
    if "one_hot selected all_symptoms = Inr X" "predict model X = Inl e"
    using predict_action_predict_raises [OF assms that] by (simp add: prediction_failed_def)
  have c3: "predict_action argsort model all_symptoms d True selected s
              = (s\<lparr>last_prediction := Some y, show_providers := False\<rparr>,
                 [StError (''Prediction failed: '' @ message e)])"
    if "one_hot selected all_symptoms = Inr X" "predict model X = Inr y"
       "predict_proba model = Some proba" "proba X = Inl e"
    using predict_action_proba_raises [OF assms that] by (simp add: prediction_failed_def)
  have c4: "predict_action argsort model all_symptoms d True selected s
              = (s2, [StError (''Prediction failed: '' @ message e)])
            \<and> last_prediction s2 = Some y \<and> show_providers s2 = False
            \<and> recommended_specialty s2 = recommended_specialty s
            \<and> taxonomy_code s2 = taxonomy_code s"
    if "one_hot selected all_symptoms = Inr X" "predict model X = Inr y"
       "store_probs argsort model X (s\<lparr>last_prediction := Some y, show_providers := False\<rparr>) = Inr s2"
       "resolve d y = Inl e"
    using predict_action_resolve_raises [OF assms that] store_probs_Inr(1-4) [OF that(3)]
    by (simp add: prediction_failed_def)
  show ?thesis
    using c1 c2 c3 c4 predict_action_failed_state [of argsort model all_symptoms d True selected s]
    by blast
qed

text \<open>
  An error is shown exactly when one of the four steps raises.
\<close>

lemma predict_action_failed_iff:
  assumes "selected \<noteq> []"
  shows "failed (snd (predict_action argsort model all_symptoms d True selected s)) \<longleftrightarrow>
           (\<exists>e. one_hot selected all_symptoms = Inl e)
         \<or> (\<exists>X. one_hot selected all_symptoms = Inr X
               \<and> ((\<exists>e. predict model X = Inl e)
                  \<or> (\<exists>y. predict model X = Inr y
                        \<and> ((\<exists>proba e. predict_proba model = Some proba \<and> proba X = Inl e)
                           \<or> (\<exists>e. resolve d y = Inl e)))))"
proof (cases "one_hot selected all_symptoms")
  case (Inl e)
  with assms show ?thesis
    by (simp add: predict_action_def failed_prediction_failed)
next
  case X: (Inr X)
  show ?thesis
  proof (cases "predict model X")
    case (Inl e)
    with assms X show ?thesis
      by (simp add: predict_action_def failed_prediction_failed)
  next
    case (Inr y)
    let ?s1 = "s\<lparr>last_prediction := Some y, show_providers := False\<rparr>"
    show ?thesis
    proof (cases "store_probs argsort model X ?s1")
      case (Inl e)
      then have "\<exists>proba e. predict_proba model = Some proba \<and> proba X = Inl e"
        by (auto simp: store_probs_Inl)
      with assms X Inr Inl show ?thesis
        by (simp add: predict_action_def failed_prediction_failed)
    next
      case s2: (Inr s2)
      then have no: "\<not> (\<exists>proba e. predict_proba model = Some proba \<and> proba X = Inl e)"
        using store_probs_Inl [of argsort model X ?s1] by auto
      show ?thesis
      proof (cases "store_specialty d y s2")
        case (Inl e)
        then have "resolve d y = Inl e" by (simp add: store_specialty_Inl)
        with assms X Inr s2 Inl show ?thesis
          by (auto simp: predict_action_def failed_prediction_failed)
      next
        case s3: (Inr s3)
        then have "\<not> (\<exists>e. resolve d y = Inl e)"
          using store_specialty_Inl [of d y s2] by auto
        with assms X Inr s2 s3 no show ?thesis
          by (simp add: predict_action_def not_failed_Nil)
      qed
    qed
  qed
qed

text \<open>
  What a successful predict action writes: the label and \<open>show_providers\<close> always, the
  probabilities when the classifier estimates them, the specialty and the taxonomy code
  when the lookup finds a row.
\<close>

lemma predict_action_success:
  assumes run: "predict_action argsort model all_symptoms d True selected s = (s', out)"
    and sel: "selected \<noteq> []"
    and ok: "\<not> failed out"
  shows "\<exists>X y. one_hot selected all_symptoms = Inr X \<and> predict model X = Inr y
           \<and> last_prediction s' = Some y
           \<and> show_providers s' = False
           \<and> (\<forall>proba. predict_proba model = Some proba \<longrightarrow>
                 (\<exists>ps. proba X = Inr ps
                       \<and> prediction_probs s' = Some \<lparr>probs = ps, top_idx = top3 argsort ps\<rparr>))
           \<and> (predict_proba model = None \<longrightarrow> prediction_probs s' = prediction_probs s)
           \<and> (\<forall>spec taxonomy. resolve d y = Inr (Some (spec, taxonomy)) \<longrightarrow>
                 recommended_specialty s' = Some spec \<and> taxonomy_code s' = Some taxonomy)"
proof (cases "one_hot selected all_symptoms")
  case (Inl e)
  with run sel have "out = prediction_failed e" by (simp add: predict_action_def)
  with ok show ?thesis by (simp add: failed_prediction_failed)
next
  case X: (Inr X)
  show ?thesis
  proof (cases "predict model X")
    case (Inl e)
    with run sel X have "out = prediction_failed e" by (simp add: predict_action_def)
    with ok show ?thesis by (simp add: failed_prediction_failed)
  next
    case (Inr y)
    let ?s1 = "s\<lparr>last_prediction := Some y, show_providers := False\<rparr>"
    show ?thesis
    proof (cases "store_probs argsort model X ?s1")
      case (Inl e)
      with run sel X Inr have "out = prediction_failed e" by (simp add: predict_action_def)
      with ok show ?thesis by (simp add: failed_prediction_failed)
    next
      case s2: (Inr s2)
      show ?thesis
      proof (cases "store_specialty d y s2")
        case (Inl e)
        with run sel X Inr s2 have "out = prediction_failed e" by (simp add: predict_action_def)
        with ok show ?thesis by (simp add: failed_prediction_failed)
      next
        case s3: (Inr s3)
        with run sel X Inr s2 have s': "s' = s3" by (simp add: predict_action_def)
        have a: "last_prediction s' = Some y" "show_providers s' = False"
          using store_specialty_Inr(1,2) [OF s3] store_probs_Inr(1,2) [OF s2] s' by simp_all
        have b: "\<exists>ps. proba X = Inr ps
                     \<and> prediction_probs s' = Some \<lparr>probs = ps, top_idx = top3 argsort ps\<rparr>"
          if "predict_proba model = Some proba" for proba
          using store_probs_Inr(6) [OF s2 that] store_specialty_Inr(3) [OF s3] s' by auto
        have c: "prediction_probs s' = prediction_probs s" if "predict_proba model = None"
          using store_probs_Inr(5) [OF s2 that] store_specialty_Inr(3) [OF s3] s' by simp
        have e: "recommended_specialty s' = Some spec \<and> taxonomy_code s' = Some taxonomy"
          if "resolve d y = Inr (Some (spec, taxonomy))" for spec taxonomy
          using store_specialty_Inr(4) [OF s3 that] s' by simp
        show ?thesis
        proof (intro exI [of _ X] exI [of _ y] conjI allI impI)
          show "one_hot selected all_symptoms = Inr X" by (rule X)
          show "predict model X = Inr y" by (rule Inr)
          show "last_prediction s' = Some y" by (rule a(1))
          show "show_providers s' = False" by (rule a(2))
          show "\<exists>ps. proba X = Inr ps
                     \<and> prediction_probs s' = Some \<lparr>probs = ps, top_idx = top3 argsort ps\<rparr>"
            if "predict_proba model = Some proba" for proba
            using that by (rule b)
          show "prediction_probs s' = prediction_probs s" if "predict_proba model = None"
            using that by (rule c)
          show "recommended_specialty s' = Some spec"
            if "resolve d y = Inr (Some (spec, taxonomy))" for spec taxonomy
            using e [OF that] by simp
          show "taxonomy_code s' = Some taxonomy"
            if "resolve d y = Inr (Some (spec, taxonomy))" for spec taxonomy
            using e [OF that] by simp
        qed
      qed
    qed
  qed
qed

lemmas demo_defs = demo_features_def demo_mapping_def demo_model_def after_flu_def initial_session_def
lemmas run_defs = predict_action_def store_probs_def store_specialty_def resolve_def lookup_info_def
  truthy_def specialty_of_def taxonomy_of_def str_or_def prediction_failed_def
  one_hot_def index_union_def enumerate_eq_zip lower_def lower_char_def
  top3_def insertion_argsort_def last3_def upt_conv_Cons

lemma after_flu_reached:
  "predict_action insertion_argsort demo_model demo_features demo_mapping True [''fever''] initial_session
     = (after_flu, [])"
  by (simp add: demo_defs run_defs)

lemma demo_rash_cough:
  "one_hot [''rash'', ''cough''] demo_features
     = Inr [(''fever'', Some 0), (''cough'', Some 1), (''rash'', Some 1)]"
  by (simp add: demo_defs run_defs)

text \<open>
  Claim C1 as the specification states it fails: after a prediction of flu, a second
  action whose probability estimate raises shows the error and leaves measles in
  \<open>last_prediction\<close>.
\<close>

theorem predict_action_failure_counterexample:
  "predict_action insertion_argsort demo_model demo_features demo_mapping True [''fever''] initial_session
     = (after_flu, [])
   \<and> predict_action insertion_argsort demo_model demo_features demo_mapping True [''rash'', ''cough''] after_flu
       = (after_flu\<lparr>last_prediction := Some (LStr ''Measles'')\<rparr>, [StError ''Prediction failed: boom''])
   \<and> last_prediction (after_flu\<lparr>last_prediction := Some (LStr ''Measles'')\<rparr>) \<noteq> last_prediction after_flu"
  by (simp add: demo_defs run_defs)

theorem predict_action_failure_witness:
  "[''rash'', ''cough''] \<noteq> []
   \<and> predict_action insertion_argsort demo_model demo_features demo_mapping True [''rash'', ''cough''] after_flu
       = (after_flu\<lparr>last_prediction := Some (LStr ''Measles''), show_providers := False\<rparr>,
          [StError ''Prediction failed: boom''])"
proof -
  have sel: "[''rash'', ''cough''] \<noteq> ([] :: string list)" by simp
  have p: "predict demo_model [(''fever'', Some 0), (''cough'', Some 1), (''rash'', Some 1)]
             = Inr (LStr ''Measles'')"
    by (simp add: demo_model_def)
  have q: "predict_proba demo_model
             = Some (\<lambda>X. if map_of X ''cough'' = Some (Some 1) then Inl (Exn ''boom'')
                          else if map_of X ''rash'' = Some (Some 1) then Inr [1 / 10, 9 / 10]
                          else Inr [9 / 10, 1 / 10])"
    by (simp add: demo_model_def)
  from predict_action_failure [OF sel,
         where all_symptoms = demo_features and e = "Exn ''boom''"
           and X = "[(''fever'', Some 0), (''cough'', Some 1), (''rash'', Some 1)]"
           and model = demo_model and y = "LStr ''Measles''"
           and proba = "\<lambda>X. if map_of X ''cough'' = Some (Some 1) then Inl (Exn ''boom'')
              else if map_of X ''rash'' = Some (Some 1) then Inr [1 / 10, 9 / 10]
              else Inr [9 / 10, 1 / 10]"
           and argsort = insertion_argsort and d = demo_mapping and s = after_flu and ?s2.0 = after_flu]
       demo_rash_cough p q sel
  show ?thesis by simp
qed

text \<open>
  Claim C4 at a failing input. After a prediction of flu, a second prediction succeeds
  with measles, which has no row in the mapping: the label and the probabilities are
  those of measles, and \<open>recommended_specialty\<close> still holds the specialty of flu.
\<close>

theorem predict_action_stale_specialty:
  "predict_action insertion_argsort demo_model demo_features demo_mapping True [''fever''] initial_session
     = (after_flu, [])
   \<and> predict_action insertion_argsort demo_model demo_features demo_mapping True [''rash''] after_flu
       = (after_flu\<lparr>last_prediction := Some (LStr ''Measles''),
                    prediction_probs := Some \<lparr>probs = [1 / 10, 9 / 10], top_idx = [1, 0]\<rparr>\<rparr>, [])
   \<and> resolve demo_mapping (LStr ''Measles'') = Inr None
   \<and> recommended_specialty
         (fst (predict_action insertion_argsort demo_model demo_features demo_mapping True [''rash''] after_flu))
       = Some ''Infectious Disease''"
  by (simp add: demo_defs run_defs)

section \<open>Properties of the specialty resolution\<close>

lemma specialty_of_get:
  "specialty_of i = (if get_str i ''Specialization'' \<noteq> [] then get_str i ''Specialization''
                     else get_str i ''Classification'')"
  by (simp add: specialty_of_def str_or_def get_str_def split: option.splits)

lemma taxonomy_of_get: "taxonomy_of i = get_str i ''Taxonomy Code''"
  by (simp add: taxonomy_of_def str_or_def get_str_def split: option.splits)

lemma lower_Flu: "lower ''Flu'' = ''flu''"
  by (simp add: lower_def lower_char_def)

text \<open>
  Claim C6. The lookup of a predicted label tries the lowercase form first and the label
  as it is second. On a hit the specialty is the \<open>Specialization\<close> member, or the
  \<open>Classification\<close> member when that is empty, and the taxonomy code is the
  \<open>Taxonomy Code\<close> member; both are stored in the session. A mapping with the key
  \<open>flu\<close> and the specialization \<open>Infectious Disease\<close> resolves the label \<open>Flu\<close> to
  \<open>Infectious Disease\<close>. The empty mapping resolves no label, and leaves the session as
  it is.
\<close>

theorem resolve_specialty:
  "(d (lower y) = Some i \<and> i \<noteq> [] \<longrightarrow>
      resolve d (LStr y) = Inr (Some (specialty_of i, taxonomy_of i)))
   \<and> (\<not> truthy (d (lower y)) \<and> d y = Some i \<and> i \<noteq> [] \<longrightarrow>
      resolve d (LStr y) = Inr (Some (specialty_of i, taxonomy_of i)))
   \<and> (\<not> truthy (d (lower y)) \<and> \<not> truthy (d y) \<longrightarrow> resolve d (LStr y) = Inr None)
   \<and> specialty_of i = (if get_str i ''Specialization'' \<noteq> [] then get_str i ''Specialization''
                        else get_str i ''Classification'')
   \<and> taxonomy_of i = get_str i ''Taxonomy Code''
   \<and> (resolve d l = Inr (Some (spec, taxonomy)) \<longrightarrow>
        store_specialty d l s = Inr (s\<lparr>recommended_specialty := Some spec, taxonomy_code := Some taxonomy\<rparr>))
   \<and> (resolve d l = Inr None \<longrightarrow> store_specialty d l s = Inr s)
   \<and> (d ''flu'' = Some i \<and> map_of i ''Specialization'' = Some ''Infectious Disease'' \<longrightarrow>
        resolve d (LStr ''Flu'') = Inr (Some (''Infectious Disease'', taxonomy_of i)))
   \<and> resolve Map.empty (LStr y) = Inr None
   \<and> resolve Map.empty l \<noteq> Inr (Some r)
   \<and> store_specialty Map.empty (LStr y) s = Inr s"
proof -
  have lower_hit: "resolve d (LStr y) = Inr (Some (specialty_of i, taxonomy_of i))"
    if "d (lower y) = Some i" "i \<noteq> []" for d y i
    using that by (simp add: resolve_def lookup_info_def truthy_def)
  have exact_hit: "resolve d (LStr y) = Inr (Some (specialty_of i, taxonomy_of i))"
    if "\<not> truthy (d (lower y))" "d y = Some i" "i \<noteq> []"
    using that by (simp add: resolve_def lookup_info_def)
  have miss: "resolve d (LStr y) = Inr None" if "\<not> truthy (d (lower y))" "\<not> truthy (d y)"
    using that by (auto simp: resolve_def lookup_info_def truthy_def split: option.splits)
  have st1: "store_specialty d l s = Inr (s\<lparr>recommended_specialty := Some spec, taxonomy_code := Some taxonomy\<rparr>)"
    if "resolve d l = Inr (Some (spec, taxonomy))"
    using that by (simp add: store_specialty_def)
  have st2: "store_specialty d l s = Inr s" if "resolve d l = Inr None"
    using that by (simp add: store_specialty_def)
  have flu: "resolve d (LStr ''Flu'') = Inr (Some (''Infectious Disease'', taxonomy_of i))"
    if "d ''flu'' = Some i" "map_of i ''Specialization'' = Some ''Infectious Disease''"
  proof -
    from that(2) have ne: "i \<noteq> []" by auto
    from that(2) have "specialty_of i = ''Infectious Disease''"
      by (simp add: specialty_of_def str_or_def)
    with lower_hit [of d "''Flu''" i] that(1) ne show ?thesis by (simp add: lower_Flu)
  qed
  have e1: "resolve Map.empty (LStr y) = Inr None"
    by (simp add: resolve_def lookup_info_def truthy_def)
  have e2: "resolve Map.empty l \<noteq> Inr (Some r)"
    by (cases l) (simp_all add: resolve_def lookup_info_def truthy_def)
  have e3: "store_specialty Map.empty (LStr y) s = Inr s"
    using e1 by (simp add: store_specialty_def)
  show ?thesis
    using lower_hit [of d y i] exact_hit miss specialty_of_get [of i] taxonomy_of_get [of i]
      st1 st2 flu e1 e2 e3
    by blast
qed

theorem resolve_specialty_witness:
  "demo_mapping (lower ''Flu'') = Some [(''Specialization'', ''Infectious Disease''),
                    (''Classification'', ''Internal Medicine''),
                    (''Taxonomy Code'', ''207RI0200X'')]
   \<and> resolve demo_mapping (LStr ''Flu'') = Inr (Some (''Infectious Disease'', ''207RI0200X''))
   \<and> resolve Map.empty (LStr ''Flu'') = Inr None"
  using resolve_specialty [of demo_mapping "''Flu''" "[(''Specialization'', ''Infectious Disease''),
                    (''Classification'', ''Internal Medicine''),
                    (''Taxonomy Code'', ''207RI0200X'')]" "LStr ''Flu''" "''Infectious Disease''" "''207RI0200X''" initial_session "(''a'', ''b'')"]
  by (simp add: demo_mapping_def lower_Flu specialty_of_def taxonomy_of_def str_or_def)

section \<open>Properties of the provider lookup and its rendering\<close>

lemma str_int_404: "str_int 404 = ''404''"
  by (simp add: str_int_def str_nat.simps digit_def)

lemma fetch_transport_error:
  "requests_get (full_url quote specialty limit location) = Inl e \<Longrightarrow>
   fetch_providers_by_specialty quote requests_get specialty limit location = error_dict (message e)"
  by (simp add: fetch_providers_by_specialty_def)

lemma fetch_status_error:
  "requests_get (full_url quote specialty limit location) = Inr resp \<Longrightarrow> status_code resp \<noteq> 200 \<Longrightarrow>
   fetch_providers_by_specialty quote requests_get specialty limit location
     = error_dict (''API request failed with status code '' @ str_int (status_code resp))"
  by (simp add: fetch_providers_by_specialty_def)

lemma fetch_json_error:
  "requests_get (full_url quote specialty limit location) = Inr resp \<Longrightarrow> status_code resp = 200 \<Longrightarrow>
   json resp = Inl e \<Longrightarrow>
   fetch_providers_by_specialty quote requests_get specialty limit location = error_dict (message e)"
  by (simp add: fetch_providers_by_specialty_def)

lemma fetch_body:
  "requests_get (full_url quote specialty limit location) = Inr resp \<Longrightarrow> status_code resp = 200 \<Longrightarrow>
   json resp = Inr body \<Longrightarrow>
   fetch_providers_by_specialty quote requests_get specialty limit location = body"
  by (simp add: fetch_providers_by_specialty_def)

text \<open>
  Claim C7. A provider lookup whose transport raises returns the error dictionary with
  the message of the exception, and one whose response has a status other than 200
  returns the error dictionary with "API request failed with status code" and the
  status: a value in both cases, with the reason under the key \<open>error\<close>. For a 404
  response the reason contains "404".
\<close>

theorem fetch_error_result:
  "(requests_get (full_url quote specialty limit location) = Inl e \<longrightarrow>
      fetch_providers_by_specialty quote requests_get specialty limit location
        = error_dict (message e))
   \<and> (requests_get (full_url quote specialty limit location) = Inr resp \<and> status_code resp \<noteq> 200 \<longrightarrow>
      fetch_providers_by_specialty quote requests_get specialty limit location
        = error_dict (''API request failed with status code '' @ str_int (status_code resp)))
   \<and> (requests_get (full_url quote specialty limit location) = Inr resp \<and> status_code resp = 404 \<longrightarrow>
      (\<exists>reason. error (fetch_providers_by_specialty quote requests_get specialty limit location)
                   = Some reason \<and> sublist ''404'' reason))
   \<and> error (error_dict reason) = Some reason"
proof -
  have "sublist ''404'' (''API request failed with status code '' @ ''404'' @ [])"
    by (rule sublist_appendI)
  then have sub: "sublist ''404'' (''API request failed with status code '' @ str_int 404)"
    by (simp add: str_int_404)
  have nf: "error (fetch_providers_by_specialty quote requests_get specialty limit location)
              = Some (''API request failed with status code '' @ str_int 404)"
    if "requests_get (full_url quote specialty limit location) = Inr resp" "status_code resp = 404"
    using that by (simp add: fetch_providers_by_specialty_def error_dict_def)
  show ?thesis
    using fetch_transport_error [of requests_get quote specialty limit location e]
      fetch_status_error [of requests_get quote specialty limit location resp] nf sub
    by (auto simp: error_dict_def)
qed

theorem fetch_error_result_witness:
  "fetch_providers_by_specialty (\<lambda>s. s) not_found ''Cardiology'' 5 None
     = error_dict ''API request failed with status code 404''
   \<and> fetch_providers_by_specialty (\<lambda>s. s) refused ''Cardiology'' 5 None
     = error_dict ''Connection refused''"
  using fetch_error_result [of not_found "\<lambda>s. s" "''Cardiology''" 5 None "Exn ''x''"
          "\<lparr>status_code = 404, json = Inl (Exn ''Expecting value'')\<rparr>" "''r''"]
        fetch_error_result [of refused "\<lambda>s. s" "''Cardiology''" 5 None "Exn ''Connection refused''"
          "\<lparr>status_code = 404, json = Inl (Exn ''Expecting value'')\<rparr>" "''r''"]
  by (simp add: not_found_def refused_def str_int_404)

text \<open>
  Claim C8. A provider lookup that gets a 200 response whose body has the registry's
  shape (a \<open>results\<close> member, no \<open>error\<close> member) and a \<open>result_count\<close> of 0
  returns that body, which has no \<open>error\<close> key, and the page renders it as the notice
  that no providers were found, not as an error.
\<close>

theorem fetch_empty_result:
  assumes "requests_get (full_url quote specialty limit location) = Inr resp"
    and "status_code resp = 200"
    and "json resp = Inr body"
    and "result_count body = Some 0"
    and "results body = Some providers"
    and "error body = None"
  shows "fetch_providers_by_specialty quote requests_get specialty limit location = body
       \<and> error (fetch_providers_by_specialty quote requests_get specialty limit location) = None
       \<and> render_provider_results (fetch_providers_by_specialty quote requests_get specialty limit location)
           = [StInfo ''No providers found for this specialty in the selected location.'']
       \<and> \<not> failed (render_provider_results
                      (fetch_providers_by_specialty quote requests_get specialty limit location))"
proof -
  have "fetch_providers_by_specialty quote requests_get specialty limit location = body"
    using assms(1-3) by (simp add: fetch_providers_by_specialty_def)
  then show ?thesis
    using assms(4-6) by (simp add: render_provider_results_def failed_def)
qed

theorem fetch_empty_result_witness:
  "no_match (full_url (\<lambda>s. s) ''Cardiology'' 5 None)
     = Inr \<lparr>status_code = 200, json = Inr \<lparr>error = None, results = Some [], result_count = Some 0\<rparr>\<rparr>
   \<and> render_provider_results (fetch_providers_by_specialty (\<lambda>s. s) no_match ''Cardiology'' 5 None)
     = [StInfo ''No providers found for this specialty in the selected location.'']"
proof -
  have "fetch_providers_by_specialty (\<lambda>s. s) no_match ''Cardiology'' 5 None
          = \<lparr>error = None, results = Some [], result_count = Some 0\<rparr>
        \<and> error (fetch_providers_by_specialty (\<lambda>s. s) no_match ''Cardiology'' 5 None) = None
        \<and> render_provider_results (fetch_providers_by_specialty (\<lambda>s. s) no_match ''Cardiology'' 5 None)
            = [StInfo ''No providers found for this specialty in the selected location.'']
        \<and> \<not> failed (render_provider_results
                      (fetch_providers_by_specialty (\<lambda>s. s) no_match ''Cardiology'' 5 None))"
    by (rule fetch_empty_result [of no_match "\<lambda>s. s" "''Cardiology''" 5 None
          "\<lparr>status_code = 200, json = Inr \<lparr>error = None, results = Some [], result_count = Some 0\<rparr>\<rparr>"
          "\<lparr>error = None, results = Some [], result_count = Some 0\<rparr>" "[]"])
       (simp_all add: no_match_def)
  moreover have "no_match (full_url (\<lambda>s. s) ''Cardiology'' 5 None)
     = Inr \<lparr>status_code = 200, json = Inr \<lparr>error = None, results = Some [], result_count = Some 0\<rparr>\<rparr>"
    by (simp add: no_match_def)
  ultimately show ?thesis by blast
qed

text \<open>
  Claim C9. The display name of an individual provider (\<open>NPI-1\<close>) is the first name, a
  space and the last name; that of any other provider whose \<open>basic\<close> data has no
  \<open>organization_name\<close> is "Unknown Provider" (and the organisation name otherwise).
\<close>

theorem provider_display_name:
  "(enumeration_type p = Some ''NPI-1'' \<longrightarrow>
      provider_name p = get_str (get_basic p) ''first_name'' @ '' '' @ get_str (get_basic p) ''last_name'')
   \<and> (enumeration_type p = Some ''NPI-1'' \<and> basic p = Some b
        \<and> map_of b ''first_name'' = Some first \<and> map_of b ''last_name'' = Some last_name \<longrightarrow>
      provider_name p = first @ '' '' @ last_name)
   \<and> (enumeration_type p \<noteq> Some ''NPI-1'' \<and> map_of (get_basic p) ''organization_name'' = None \<longrightarrow>
      provider_name p = ''Unknown Provider'')
   \<and> (enumeration_type p \<noteq> Some ''NPI-1'' \<and> map_of (get_basic p) ''organization_name'' = Some n \<longrightarrow>
      provider_name p = n)"
  by (auto simp: provider_name_def get_str_def get_basic_def)

theorem provider_display_name_witness:
  "enumeration_type jane = Some ''NPI-1'' \<and> provider_name jane = ''Jane Doe''
   \<and> enumeration_type nameless \<noteq> Some ''NPI-1'' \<and> provider_name nameless = ''Unknown Provider''"
  using provider_display_name [of jane "[(''first_name'', ''Jane''), (''last_name'', ''Doe'')]" "''Jane''" "''Doe''" "''x''"]
        provider_display_name [of nameless "[]" "''Jane''" "''Doe''" "''x''"]
  by (simp add: jane_def nameless_def get_basic_def get_str_def)

lemma render_provider_no_error: "\<not> list_ex is_error (render_provider p)"
  by (auto simp: render_provider_def render_address_def Let_def list_ex_iff split: option.splits)

lemma cards_no_error: "\<not> list_ex is_error (concat (map render_provider ps))"
  using render_provider_no_error by (induction ps) (auto simp: list_ex_iff)

lemma render_failed_iff:
  "failed (render_provider_results res) \<longleftrightarrow> results res \<noteq> None \<and> error res \<noteq> None"
  using cards_no_error
  by (auto simp: render_provider_results_def failed_def Let_def split: option.splits)

lemma fetch_cases:
  "(\<exists>reason. fetch_providers_by_specialty quote requests_get specialty limit location = error_dict reason)
   \<or> (\<exists>resp body. requests_get (full_url quote specialty limit location) = Inr resp
         \<and> status_code resp = 200 \<and> json resp = Inr body
         \<and> fetch_providers_by_specialty quote requests_get specialty limit location = body)"
  by (auto simp: fetch_providers_by_specialty_def split: sum.splits)

text \<open>
  Claim C10. A dictionary with the key \<open>error\<close> and without the key \<open>results\<close> is
  rendered as the warning "No provider results found." and nothing else. Every error
  dictionary that the lookup builds has this shape. The branch that shows the reason is
  not reached for any result of the lookup, the bodies of the registry's 200 responses
  having no \<open>error\<close> member.
\<close>

theorem render_error_result:
  "(error res \<noteq> None \<and> results res = None \<longrightarrow>
      render_provider_results res = [StWarning ''No provider results found.''])
   \<and> error (error_dict reason) \<noteq> None \<and> results (error_dict reason) = None
   \<and> render_provider_results (error_dict reason) = [StWarning ''No provider results found.'']
   \<and> ((\<forall>resp body. requests_get (full_url quote specialty limit location) = Inr resp
                    \<and> status_code resp = 200 \<and> json resp = Inr body \<longrightarrow> error body = None) \<longrightarrow>
        \<not> failed (render_provider_results
                    (fetch_providers_by_specialty quote requests_get specialty limit location)))"
proof -
  have a: "render_provider_results res = [StWarning ''No provider results found.'']"
    if "results res = None" for res
    using that by (simp add: render_provider_results_def)
  have b: "results (error_dict reason) = None" "error (error_dict reason) \<noteq> None" for reason
    by (simp_all add: error_dict_def)
  have c: "\<not> failed (render_provider_results
                    (fetch_providers_by_specialty quote requests_get specialty limit location))"
    if h: "\<forall>resp body. requests_get (full_url quote specialty limit location) = Inr resp
                    \<and> status_code resp = 200 \<and> json resp = Inr body \<longrightarrow> error body = None"
    using fetch_cases [of quote requests_get specialty limit location]
  proof
    assume "\<exists>reason. fetch_providers_by_specialty quote requests_get specialty limit location
                = error_dict reason"
    then show ?thesis using b(1) by (auto simp: render_failed_iff)
  next
    assume "\<exists>resp body. requests_get (full_url quote specialty limit location) = Inr resp
         \<and> status_code resp = 200 \<and> json resp = Inr body
         \<and> fetch_providers_by_specialty quote requests_get specialty limit location = body"
    then show ?thesis using h by (auto simp: render_failed_iff)
  qed
  show ?thesis using a [of res] a [OF b(1)] b c by blast
qed

theorem render_error_result_witness:
  "render_provider_results (fetch_providers_by_specialty (\<lambda>s. s) not_found ''Cardiology'' 5 None)
     = [StWarning ''No provider results found.'']
   \<and> \<not> failed (render_provider_results (fetch_providers_by_specialty (\<lambda>s. s) not_found ''Cardiology'' 5 None))
   \<and> \<not> failed (render_provider_results (fetch_providers_by_specialty (\<lambda>s. s) no_match ''Cardiology'' 5 None))"
proof -
  have f: "fetch_providers_by_specialty (\<lambda>s. s) not_found ''Cardiology'' 5 None
            = error_dict ''API request failed with status code 404''"
    by (simp add: fetch_providers_by_specialty_def not_found_def str_int_404)
  have h1: "\<forall>resp body. not_found (full_url (\<lambda>s. s) ''Cardiology'' 5 None) = Inr resp
                    \<and> status_code resp = 200 \<and> json resp = Inr body \<longrightarrow> error body = None"
    by (simp add: not_found_def)
  have h2: "\<forall>resp body. no_match (full_url (\<lambda>s. s) ''Cardiology'' 5 None) = Inr resp
                    \<and> status_code resp = 200 \<and> json resp = Inr body \<longrightarrow> error body = None"
    by (auto simp: no_match_def)
  from render_error_result [of "error_dict ''x''" "''API request failed with status code 404''"
         not_found "\<lambda>s. s" "''Cardiology''" 5 None] h1
       render_error_result [of "error_dict ''x''" "''x''" no_match "\<lambda>s. s" "''Cardiology''" 5 None] h2
  show ?thesis unfolding f by blast
qed

end
